theory Spec2Isabelle
  imports Complex_Main "HOL-Library.Sublist"
begin

section \<open>The query agent's main process (main.js)\<close>

text \<open>
  A shallow embedding of the IPC handlers of \<^verbatim>\<open>main.js\<close>. The three module-level
  variables (\<^verbatim>\<open>bigqueryClient\<close>, \<^verbatim>\<open>geminiClient\<close>, \<^verbatim>\<open>tableSchemaCache\<close>) and the
  persistent \<^verbatim>\<open>store\<close> form the state that every handler takes and returns. What the
  outside world answers (the file dialog, the file system, the token endpoint, the
  warehouse, the generative model) and the library functions of the platform
  (\<^verbatim>\<open>JSON.parse\<close>, \<^verbatim>\<open>JSON.stringify\<close>, \<^verbatim>\<open>Number\<close>, \<^verbatim>\<open>Date.prototype.toISOString\<close>) are
  the fields of an environment record. A thrown \<^verbatim>\<open>Error\<close> is the \<open>Inl\<close> of a sum and
  carries its \<^verbatim>\<open>message\<close>.

  A \<open>string\<close> stands for a JavaScript string whose code units are all below 256.
\<close>

subsection \<open>JavaScript values\<close>

datatype number = Finite real | NaN | PosInfinity | NegInfinity

text \<open>
  The values that rows of the warehouse and parsed JSON documents are made of. A
  \<open>JDate\<close> holds its time value in milliseconds, \<open>None\<close> for an invalid date. An
  object is the list of its own enumerable properties, in order, and the list of the
  properties it inherits through its prototype chain, each with what a read of it
  gives: a value, or the exception that its getter throws (\<open>Inl\<close>). An object literal
  and a parsed JSON object inherit none of the properties read here.
\<close>

datatype jsval =
    JUndefined
  | JNull
  | JBool bool
  | JNum number
  | JBigInt int
  | JStr string
  | JDate "int option"
  | JArray "jsval list"
  | JObject "(string \<times> jsval) list" "(string \<times> (string + jsval)) list"

text \<open>The \<^verbatim>\<open>typeof\<close> operator.\<close>

fun typeof :: "jsval \<Rightarrow> string" where
  "typeof JUndefined = ''undefined''"
| "typeof JNull = ''object''"
| "typeof (JBool b) = ''boolean''"
| "typeof (JNum n) = ''number''"
| "typeof (JBigInt i) = ''bigint''"
| "typeof (JStr s) = ''string''"
| "typeof (JDate d) = ''object''"
| "typeof (JArray xs) = ''object''"
| "typeof (JObject own inherited) = ''object''"

text \<open>Truthiness, as \<^verbatim>\<open>if (v)\<close> and \<^verbatim>\<open>!v\<close> see it.\<close>

fun truthy :: "jsval \<Rightarrow> bool" where
  "truthy JUndefined = False"
| "truthy JNull = False"
| "truthy (JBool b) = b"
| "truthy (JNum n) = (n \<noteq> Finite 0 \<and> n \<noteq> NaN)"
| "truthy (JBigInt i) = (i \<noteq> 0)"
| "truthy (JStr s) = (s \<noteq> [])"
| "truthy (JDate d) = True"
| "truthy (JArray xs) = True"
| "truthy (JObject own inherited) = True"

text \<open>
  The message of the \<^verbatim>\<open>TypeError\<close> that V8 throws when a property of \<^verbatim>\<open>null\<close> or
  \<^verbatim>\<open>undefined\<close> is read.
\<close>

definition cannot_read :: "string \<Rightarrow> string \<Rightarrow> string" where
  "cannot_read what p =
     ''Cannot read properties of '' @ what @ '' (reading '' @ [CHR 0x27] @ p @ [CHR 0x27] @ '')''"

text \<open>
  The property read \<^verbatim>\<open>v.p\<close>, for the property names the handlers read (\<^verbatim>\<open>type\<close>,
  \<^verbatim>\<open>client_email\<close>, \<^verbatim>\<open>clientId\<close>, \<^verbatim>\<open>clientSecret\<close>, \<^verbatim>\<open>value\<close>). An object answers
  with its own property, else with the inherited one, a getter included (the \<^verbatim>\<open>value\<close>
  of the warehouse library's range class is one), else with \<^verbatim>\<open>undefined\<close>. None of these
  names is on the prototype of a primitive, an array or a date.
\<close>

fun get_prop :: "jsval \<Rightarrow> string \<Rightarrow> string + jsval" where
  "get_prop JUndefined p = Inl (cannot_read ''undefined'' p)"
| "get_prop JNull p = Inl (cannot_read ''null'' p)"
| "get_prop (JObject own inherited) p =
     (case map_of own p of
        Some x \<Rightarrow> Inr x
      | None \<Rightarrow> (case map_of inherited p of Some r \<Rightarrow> r | None \<Rightarrow> Inr JUndefined))"
| "get_prop v p = Inr JUndefined"

subsection \<open>Strings\<close>

text \<open>The white space and line terminators of ECMAScript among the code units below 256.\<close>

definition js_whitespace :: "char \<Rightarrow> bool" where
  "js_whitespace c =
     (c = CHR 0x09 \<or> c = CHR 0x0A \<or> c = CHR 0x0B \<or> c = CHR 0x0C \<or> c = CHR 0x0D
      \<or> c = CHR 0x20 \<or> c = CHR 0xA0)"

text \<open>\<^verbatim>\<open>String.prototype.trim\<close>.\<close>

definition trim :: "string \<Rightarrow> string" where
  "trim s = rev (dropWhile js_whitespace (rev (dropWhile js_whitespace s)))"

text \<open>A string is falsy when it is absent or empty.\<close>

fun present :: "string option \<Rightarrow> bool" where
  "present None = False"
| "present (Some s) = (s \<noteq> [])"

subsection \<open>State\<close>

text \<open>A column descriptor of \<^verbatim>\<open>meta.schema.fields\<close>.\<close>

record field =
  field_name :: string
  field_type :: string

text \<open>
  The OAuth2 client: client id, client secret and, once \<^verbatim>\<open>setCredentials\<close> has run,
  the tokens. The redirect URI is always the out-of-band one.
\<close>

datatype oauth2 = OAuth2 jsval jsval "jsval option"

text \<open>The three ways \<^verbatim>\<open>getBigQueryClient\<close> constructs a \<^verbatim>\<open>BigQuery\<close>.\<close>

datatype auth = Credentials jsval | AuthClient oauth2 | Ambient

datatype bq_client = BigQuery string auth

datatype gemini = GoogleGenerativeAI string

text \<open>
  The calls that leave the process: browser launches and the requests to remote
  services. The handlers append to this history; nothing reads it.
\<close>

datatype effect =
    OpenExternal string
  | GetToken string
  | GetTables string
  | GetMetadata string
  | GenerateContent
  | RunQuery string

record app =
  store :: "string \<rightharpoonup> string"
  bigqueryClient :: "bq_client option"
  geminiClient :: "gemini option"
  tableSchemaCache :: "string \<rightharpoonup> field list"
  effects :: "effect list"

text \<open>
  \<open>tableSchemaCache\<close> is a plain object; the map holds its own keys, which is all
  that \<^verbatim>\<open>Object.keys\<close> and \<^verbatim>\<open>Object.entries\<close> see. The assignment \<^verbatim>\<open>cache[k] = v\<close> adds
  or overwrites the key \<open>k\<close>, except for \<^verbatim>\<open>__proto__\<close>: there it runs the setter that
  \<^verbatim>\<open>Object.prototype\<close> provides, which replaces the prototype of the cache and adds no
  key.
\<close>

definition assign_own :: "string \<Rightarrow> 'v \<Rightarrow> (string \<rightharpoonup> 'v) \<Rightarrow> (string \<rightharpoonup> 'v)" where
  "assign_own k v c = (if k = ''__proto__'' then c else c(k \<mapsto> v))"

text \<open>\<^verbatim>\<open>store.get(key, dflt)\<close>.\<close>

definition store_get :: "app \<Rightarrow> string \<Rightarrow> string \<Rightarrow> string" where
  "store_get st k dflt = (case store st k of None \<Rightarrow> dflt | Some v \<Rightarrow> v)"

text \<open>\<^verbatim>\<open>store.set(key, value)\<close>.\<close>

definition store_set :: "string \<Rightarrow> string \<Rightarrow> app \<Rightarrow> app" where
  "store_set k v st = st\<lparr>store := (store st)(k \<mapsto> v)\<rparr>"

definition perform :: "effect \<Rightarrow> app \<Rightarrow> app" where
  "perform e st = st\<lparr>effects := effects st @ [e]\<rparr>"

subsection \<open>The environment\<close>

record dialog_result =
  canceled :: bool
  filePaths :: "string list"

text \<open>
  A table of the listing, with the answer its \<^verbatim>\<open>getMetadata()\<close> gives: an error, or
  the metadata, of which the handlers read \<^verbatim>\<open>schema?.fields\<close> only (\<open>None\<close> when
  \<^verbatim>\<open>schema\<close> or \<^verbatim>\<open>fields\<close> is missing).
\<close>

record table =
  table_id :: string
  getMetadata :: "string + field list option"

text \<open>
  The parts of the prompt that vary: the schema cache, the project, the dataset and
  the question. The rest of the prompt is fixed text.
\<close>

record prompt =
  prompt_schema :: "string \<rightharpoonup> field list"
  prompt_project :: "string option"
  prompt_dataset :: "string option"
  prompt_question :: string

type_synonym row = "(string \<times> jsval) list"

record env =
  showOpenDialog :: dialog_result
  readFileSync :: "string \<Rightarrow> string + string"
  JSON_parse :: "string \<Rightarrow> string + jsval"
  JSON_stringify :: "jsval \<Rightarrow> string + string"
  Number :: "jsval \<Rightarrow> number"
  toISOString :: "int \<Rightarrow> string"
  generateAuthUrl :: "oauth2 \<Rightarrow> string"
  getToken :: "oauth2 \<Rightarrow> string \<Rightarrow> string + jsval"
  getTables :: "bq_client \<Rightarrow> string \<Rightarrow> string + table list"
  generateContent :: "gemini \<Rightarrow> prompt \<Rightarrow> string + string"
  query :: "bq_client \<Rightarrow> string \<Rightarrow> string + row list"

subsection \<open>config:save\<close>

text \<open>
  The settings form sends strings; a field the caller leaves out is \<open>None\<close>
  (\<^verbatim>\<open>undefined\<close>).
\<close>

record config =
  projectId :: "string option"
  datasetId :: "string option"
  geminiKey :: "string option"
  authMethod :: "string option"

record reply =
  ok :: bool
  error :: "string option"

text \<open>\<^verbatim>\<open>if (config.f) store.set(key, g(config.f))\<close>.\<close>

fun set_if_present :: "string \<Rightarrow> (string \<Rightarrow> string) \<Rightarrow> string option \<Rightarrow> app \<Rightarrow> app" where
  "set_if_present k g None st = st"
| "set_if_present k g (Some v) st = (if v \<noteq> [] then store_set k (g v) st else st)"

definition config_save :: "config \<Rightarrow> app \<Rightarrow> reply \<times> app" where
  "config_save cfg st =
     (let st1 = set_if_present ''projectId'' trim (projectId cfg) st;
          st2 = set_if_present ''datasetId'' trim (datasetId cfg) st1;
          st3 = set_if_present ''geminiKey'' trim (geminiKey cfg) st2;
          st4 = set_if_present ''authMethod'' (\<lambda>v. v) (authMethod cfg) st3
      in (\<lparr>ok = True, error = None\<rparr>,
          st4\<lparr>bigqueryClient := None, geminiClient := None, tableSchemaCache := Map.empty\<rparr>))"

subsection \<open>auth:pickJsonFile\<close>

record pick_reply = reply +
  email :: "jsval option"

definition not_a_key_file :: string where
  "not_a_key_file =
     ''Not a valid service account JSON file. Make sure you downloaded the right key.''"

text \<open>
  The body of the \<^verbatim>\<open>try\<close> block: \<open>Inl\<close> is the message of an exception thrown in it,
  with the state as it was when it was thrown.
\<close>

definition pickJsonFile_try :: "env \<Rightarrow> string \<Rightarrow> app \<Rightarrow> (string + pick_reply) \<times> app" where
  "pickJsonFile_try env path st =
     (case readFileSync env path of
        Inl e \<Rightarrow> (Inl e, st)
      | Inr raw \<Rightarrow>
          (case JSON_parse env raw of
             Inl e \<Rightarrow> (Inl e, st)
           | Inr parsed \<Rightarrow>
               (case get_prop parsed ''type'' of
                  Inl e \<Rightarrow> (Inl e, st)
                | Inr t \<Rightarrow>
                    if \<not> truthy t \<or> t \<noteq> JStr ''service_account''
                    then (Inr \<lparr>ok = False, error = Some not_a_key_file, email = None\<rparr>, st)
                    else
                      (let st1 = store_set ''serviceAccountJson'' raw st;
                           st2 = store_set ''authMethod'' ''serviceAccount'' st1;
                           st3 = st2\<lparr>bigqueryClient := None\<rparr>
                       in case get_prop parsed ''client_email'' of
                            Inl e \<Rightarrow> (Inl e, st3)
                          | Inr em \<Rightarrow> (Inr \<lparr>ok = True, error = None, email = Some em\<rparr>, st3)))))"

definition pickJsonFile :: "env \<Rightarrow> app \<Rightarrow> pick_reply \<times> app" where
  "pickJsonFile env st =
     (let result = showOpenDialog env
      in if canceled result then (\<lparr>ok = False, error = None, email = None\<rparr>, st)
         else
           (case filePaths result of
              [] \<Rightarrow> (\<lparr>ok = False, error = None, email = None\<rparr>, st)
            | path # others \<Rightarrow>
                (case pickJsonFile_try env path st of
                   (Inl e, st') \<Rightarrow>
                     (\<lparr>ok = False, error = Some (''Could not read file: '' @ e), email = None\<rparr>, st')
                 | (Inr r, st') \<Rightarrow> (r, st'))))"

subsection \<open>auth:browserLogin and auth:submitOauthCode\<close>

record login_reply = reply +
  authUrl :: "string option"

definition oauth_not_configured :: string where
  "oauth_not_configured =
     ''OAuth client credentials not configured. Add your OAuth2 Client ID and Secret in settings, or use a service account JSON instead.''"

text \<open>
  This handler has no \<^verbatim>\<open>try\<close>: \<open>Inl\<close> is an exception that leaves it. The launch of the
  browser is not awaited.
\<close>

definition browserLogin :: "env \<Rightarrow> app \<Rightarrow> (string + login_reply) \<times> app" where
  "browserLogin env st =
     (let clientId = store_get st ''oauthClientId'' [];
          clientSecret = store_get st ''oauthClientSecret'' []
      in if clientId = [] \<or> clientSecret = []
         then (Inr \<lparr>ok = False, error = Some oauth_not_configured, authUrl = None\<rparr>, st)
         else
           (let oauth2Client = OAuth2 (JStr clientId) (JStr clientSecret) None;
                url = generateAuthUrl env oauth2Client;
                st1 = perform (OpenExternal url) st;
                st2 = store_set ''authMethod'' ''browser'' st1
            in case JSON_stringify env
                      (JObject [(''clientId'', JStr clientId), (''clientSecret'', JStr clientSecret)]
                         []) of
                 Inl e \<Rightarrow> (Inl e, st2)
               | Inr s \<Rightarrow>
                   (Inr \<lparr>ok = True, error = None, authUrl = Some url\<rparr>,
                    store_set ''pendingOauthClient'' s st2)))"

text \<open>
  The \<^verbatim>\<open>try\<close> block of the code submission. \<open>JSON_stringify\<close> answers \<open>Inl\<close> also where
  \<^verbatim>\<open>JSON.stringify\<close> gives \<^verbatim>\<open>undefined\<close>, which \<^verbatim>\<open>store.set\<close> refuses with an exception.
\<close>

definition submitOauthCode_try :: "env \<Rightarrow> string \<Rightarrow> app \<Rightarrow> (string + reply) \<times> app" where
  "submitOauthCode_try env code st =
     (case JSON_parse env (store_get st ''pendingOauthClient'' ''{}'') of
        Inl e \<Rightarrow> (Inl e, st)
      | Inr pending \<Rightarrow>
          (case get_prop pending ''clientId'' of
             Inl e \<Rightarrow> (Inl e, st)
           | Inr cid \<Rightarrow>
               (case get_prop pending ''clientSecret'' of
                  Inl e \<Rightarrow> (Inl e, st)
                | Inr secret \<Rightarrow>
                    (let oauth2Client = OAuth2 cid secret None;
                         st1 = perform (GetToken (trim code)) st
                     in case getToken env oauth2Client (trim code) of
                          Inl e \<Rightarrow> (Inl e, st1)
                        | Inr tokens \<Rightarrow>
                            (case JSON_stringify env tokens of
                               Inl e \<Rightarrow> (Inl e, st1)
                             | Inr s \<Rightarrow>
                                 (let st2 = store_set ''oauthTokens'' s st1;
                                      st3 = store_set ''authMethod'' ''browser'' st2
                                  in (Inr \<lparr>ok = True, error = None\<rparr>,
                                      st3\<lparr>bigqueryClient := None\<rparr>)))))))"

definition submitOauthCode :: "env \<Rightarrow> string \<Rightarrow> app \<Rightarrow> reply \<times> app" where
  "submitOauthCode env code st =
     (case submitOauthCode_try env code st of
        (Inl e, st') \<Rightarrow> (\<lparr>ok = False, error = Some (''Token exchange failed: '' @ e)\<rparr>, st')
      | (Inr r, st') \<Rightarrow> (r, st'))"

subsection \<open>The client factories\<close>

definition no_project :: string where
  "no_project = ''No Google Cloud Project ID configured. Go to Settings.''"

definition no_key_file :: string where
  "no_key_file = ''No service account JSON uploaded. Go to Settings and upload your key file.''"

definition no_browser_auth :: string where
  "no_browser_auth = ''Browser auth not completed. Go to Settings and sign in.''"

definition no_gemini_key :: string where
  "no_gemini_key = ''No Gemini API key configured. Go to Settings and add your key.''"

text \<open>The branch of \<^verbatim>\<open>getBigQueryClient\<close> for the stored method, given the project.\<close>

definition newBigQuery :: "env \<Rightarrow> app \<Rightarrow> string \<Rightarrow> string + bq_client" where
  "newBigQuery env st project =
     (let method = store_get st ''authMethod'' ''serviceAccount''
      in if method = ''serviceAccount'' then
           (case store st ''serviceAccountJson'' of
              None \<Rightarrow> Inl no_key_file
            | Some jsonRaw \<Rightarrow>
                if jsonRaw = [] then Inl no_key_file
                else
                  (case JSON_parse env jsonRaw of
                     Inl e \<Rightarrow> Inl e
                   | Inr credentials \<Rightarrow> Inr (BigQuery project (Credentials credentials))))
         else if method = ''browser'' then
           (case store st ''oauthTokens'' of
              None \<Rightarrow> Inl no_browser_auth
            | Some tokensRaw \<Rightarrow>
                if tokensRaw = [] then Inl no_browser_auth
                else
                  (case JSON_parse env (store_get st ''pendingOauthClient'' ''{}'') of
                     Inl e \<Rightarrow> Inl e
                   | Inr pending \<Rightarrow>
                       (case get_prop pending ''clientId'' of
                          Inl e \<Rightarrow> Inl e
                        | Inr cid \<Rightarrow>
                            (case get_prop pending ''clientSecret'' of
                               Inl e \<Rightarrow> Inl e
                             | Inr secret \<Rightarrow>
                                 (case JSON_parse env tokensRaw of
                                    Inl e \<Rightarrow> Inl e
                                  | Inr tokens \<Rightarrow>
                                      Inr (BigQuery project
                                             (AuthClient (OAuth2 cid secret (Some tokens)))))))))
         else Inr (BigQuery project Ambient))"

definition getBigQueryClient :: "env \<Rightarrow> app \<Rightarrow> (string + bq_client) \<times> app" where
  "getBigQueryClient env st =
     (case bigqueryClient st of
        Some c \<Rightarrow> (Inr c, st)
      | None \<Rightarrow>
          (case store st ''projectId'' of
             None \<Rightarrow> (Inl no_project, st)
           | Some project \<Rightarrow>
               if project = [] then (Inl no_project, st)
               else
                 (case newBigQuery env st project of
                    Inl e \<Rightarrow> (Inl e, st)
                  | Inr c \<Rightarrow> (Inr c, st\<lparr>bigqueryClient := Some c\<rparr>))))"

definition getGeminiClient :: "app \<Rightarrow> (string + gemini) \<times> app" where
  "getGeminiClient st =
     (case geminiClient st of
        Some g \<Rightarrow> (Inr g, st)
      | None \<Rightarrow>
          (case store st ''geminiKey'' of
             None \<Rightarrow> (Inl no_gemini_key, st)
           | Some key \<Rightarrow>
               if key = [] then (Inl no_gemini_key, st)
               else (Inr (GoogleGenerativeAI key), st\<lparr>geminiClient := Some (GoogleGenerativeAI key)\<rparr>)))"

subsection \<open>Schema discovery\<close>

text \<open>\<^verbatim>\<open>meta.schema?.fields || []\<close>.\<close>

fun fields_or_empty :: "field list option \<Rightarrow> field list" where
  "fields_or_empty None = []"
| "fields_or_empty (Some fs) = fs"

text \<open>
  The loop \<^verbatim>\<open>for (const table of tables)\<close> of both handlers: one metadata request per
  table, each answer written into the cache at once. \<open>Some e\<close> is the exception that
  ends the loop.
\<close>

fun cacheTableSchemas :: "table list \<Rightarrow> app \<Rightarrow> string option \<times> app" where
  "cacheTableSchemas [] st = (None, st)"
| "cacheTableSchemas (t # ts) st =
     (let st1 = perform (GetMetadata (table_id t)) st
      in case getMetadata t of
           Inl e \<Rightarrow> (Some e, st1)
         | Inr meta \<Rightarrow>
             cacheTableSchemas ts
               (st1\<lparr>tableSchemaCache :=
                      assign_own (table_id t) (fields_or_empty meta) (tableSchemaCache st1)\<rparr>))"

text \<open>
  The listing followed by the loop, as both \<^verbatim>\<open>agent:testConnection\<close> (lines 223 to 230)
  and \<^verbatim>\<open>agent:query\<close> (lines 251 to 255) have it.
\<close>

definition discoverSchema :: "env \<Rightarrow> bq_client \<Rightarrow> string \<Rightarrow> app \<Rightarrow> (string + table list) \<times> app" where
  "discoverSchema env bq dataset st =
     (let st1 = perform (GetTables dataset) st
      in case getTables env bq dataset of
           Inl e \<Rightarrow> (Inl e, st1)
         | Inr ts \<Rightarrow>
             (case cacheTableSchemas ts st1 of
                (Some e, st2) \<Rightarrow> (Inl e, st2)
              | (None, st2) \<Rightarrow> (Inr ts, st2)))"

text \<open>Step 1 of \<^verbatim>\<open>agent:query\<close>: discover the schema if the cache has no key.\<close>

definition ensureSchema :: "env \<Rightarrow> bq_client \<Rightarrow> string \<Rightarrow> app \<Rightarrow> string option \<times> app" where
  "ensureSchema env bq dataset st =
     (if tableSchemaCache st = Map.empty
      then (case discoverSchema env bq dataset st of
              (Inl e, st1) \<Rightarrow> (Some e, st1)
            | (Inr ts, st1) \<Rightarrow> (None, st1))
      else (None, st))"

subsection \<open>agent:testConnection\<close>

record test_reply = reply +
  tables :: "string list option"

definition no_dataset_settings :: string where
  "no_dataset_settings = ''No BigQuery dataset configured. Go to Settings.''"

definition testConnection_try :: "env \<Rightarrow> app \<Rightarrow> (string + test_reply) \<times> app" where
  "testConnection_try env st =
     (case getBigQueryClient env st of
        (Inl e, st1) \<Rightarrow> (Inl e, st1)
      | (Inr bq, st1) \<Rightarrow>
          (case store st1 ''datasetId'' of
             None \<Rightarrow> (Inr \<lparr>ok = False, error = Some no_dataset_settings, tables = None\<rparr>, st1)
           | Some dataset \<Rightarrow>
               if dataset = []
               then (Inr \<lparr>ok = False, error = Some no_dataset_settings, tables = None\<rparr>, st1)
               else
                 (case discoverSchema env bq dataset st1 of
                    (Inl e, st2) \<Rightarrow> (Inl e, st2)
                  | (Inr ts, st2) \<Rightarrow>
                      (Inr \<lparr>ok = True, error = None, tables = Some (map table_id ts)\<rparr>, st2))))"

definition testConnection :: "env \<Rightarrow> app \<Rightarrow> test_reply \<times> app" where
  "testConnection env st =
     (case testConnection_try env st of
        (Inl e, st') \<Rightarrow> (\<lparr>ok = False, error = Some e, tables = None\<rparr>, st')
      | (Inr r, st') \<Rightarrow> (r, st'))"

subsection \<open>The result normalizer\<close>

text \<open>\<^verbatim>\<open>v instanceof Date\<close>.\<close>

fun instanceof_Date :: "jsval \<Rightarrow> bool" where
  "instanceof_Date (JDate d) = True"
| "instanceof_Date v = False"

text \<open>
  The call \<^verbatim>\<open>v.toISOString()\<close>: an invalid date throws a \<^verbatim>\<open>RangeError\<close>, and a value
  that is no date has no such method.
\<close>

fun call_toISOString :: "env \<Rightarrow> jsval \<Rightarrow> string + jsval" where
  "call_toISOString env (JDate (Some t)) = Inr (JStr (toISOString env t))"
| "call_toISOString env (JDate None) = Inl ''Invalid time value''"
| "call_toISOString env v = Inl ''v.toISOString is not a function''"

text \<open>
  One \<open>if\<close> for each line of the function, in its order. The fourth line reads
  \<^verbatim>\<open>v.value\<close> in its condition: were that read to throw, the line would throw, which is
  the \<open>Inl\<close> of its condition.
\<close>

definition serializeValue :: "env \<Rightarrow> jsval \<Rightarrow> string + jsval" where
  "serializeValue env v =
     (if v = JNull \<or> v = JUndefined then Inr JNull
      else if typeof v = ''bigint'' then Inr (JNum (Number env v))
      else if instanceof_Date v then call_toISOString env v
      else if typeof v = ''object''
           \<and> (case get_prop v ''value'' of Inl e \<Rightarrow> True | Inr x \<Rightarrow> x \<noteq> JUndefined)
      then get_prop v ''value''
      else if typeof v = ''object''
      then (case JSON_stringify env v of Inl e \<Rightarrow> Inl e | Inr s \<Rightarrow> Inr (JStr s))
      else Inr v)"

text \<open>
  \<^verbatim>\<open>Object.fromEntries(Object.entries(row).map(([k, v]) => [k, serializeValue(v)]))\<close>
  and the \<^verbatim>\<open>rows.map\<close> around it: the first exception ends both.
\<close>

fun serializeRow :: "env \<Rightarrow> row \<Rightarrow> string + row" where
  "serializeRow env [] = Inr []"
| "serializeRow env ((k, v) # kvs) =
     (case serializeValue env v of
        Inl e \<Rightarrow> Inl e
      | Inr v' \<Rightarrow> (case serializeRow env kvs of Inl e \<Rightarrow> Inl e | Inr kvs' \<Rightarrow> Inr ((k, v') # kvs')))"

fun serializeRows :: "env \<Rightarrow> row list \<Rightarrow> string + row list" where
  "serializeRows env [] = Inr []"
| "serializeRows env (r # rs) =
     (case serializeRow env r of
        Inl e \<Rightarrow> Inl e
      | Inr r' \<Rightarrow> (case serializeRows env rs of Inl e \<Rightarrow> Inl e | Inr rs' \<Rightarrow> Inr (r' # rs')))"

subsection \<open>agent:query\<close>

record query_reply = reply +
  sql :: "string option"
  rows :: "row list option"
  columns :: "string list option"
  message :: "string option"

definition no_dataset :: string where
  "no_dataset = ''No BigQuery dataset configured.''"

definition cannot_answer_message :: string where
  "cannot_answer_message =
     ''I couldn'' @ [CHR 0x27] @ ''t find a way to answer that from the available 3CX data. Try rephrasing, or ask about calls, queues, extensions, or call durations.''"

text \<open>
  The \<^verbatim>\<open>try\<close> block up to the prompt: both clients, the dataset check, step 1 and the
  text of the prompt.
\<close>

definition query_prepare ::
  "env \<Rightarrow> string \<Rightarrow> app \<Rightarrow> (string + bq_client \<times> gemini \<times> prompt) \<times> app" where
  "query_prepare env userQuestion st =
     (case getBigQueryClient env st of
        (Inl e, st1) \<Rightarrow> (Inl e, st1)
      | (Inr bq, st1) \<Rightarrow>
          (case getGeminiClient st1 of
             (Inl e, st2) \<Rightarrow> (Inl e, st2)
           | (Inr ai, st2) \<Rightarrow>
               (case store st2 ''datasetId'' of
                  None \<Rightarrow> (Inl no_dataset, st2)
                | Some dataset \<Rightarrow>
                    if dataset = [] then (Inl no_dataset, st2)
                    else
                      (case ensureSchema env bq dataset st2 of
                         (Some e, st3) \<Rightarrow> (Inl e, st3)
                       | (None, st3) \<Rightarrow>
                           (Inr (bq, ai,
                                 \<lparr>prompt_schema = tableSchemaCache st3,
                                  prompt_project = store st3 ''projectId'',
                                  prompt_dataset = Some dataset,
                                  prompt_question = userQuestion\<rparr>),
                            st3)))))"

text \<open>Steps 2 and 3: the model's answer, the sentinel, the execution of the query.\<close>

definition query_try :: "env \<Rightarrow> string \<Rightarrow> app \<Rightarrow> (string + query_reply) \<times> app" where
  "query_try env userQuestion st =
     (case query_prepare env userQuestion st of
        (Inl e, st1) \<Rightarrow> (Inl e, st1)
      | (Inr (bq, ai, systemPrompt), st1) \<Rightarrow>
          (let st2 = perform GenerateContent st1
           in case generateContent env ai systemPrompt of
                Inl e \<Rightarrow> (Inl e, st2)
              | Inr text \<Rightarrow>
                  (let sql_text = trim text
                   in if sql_text = ''CANNOT_ANSWER''
                      then (Inr \<lparr>ok = True, error = None, sql = None, rows = Some [],
                                 columns = Some [], message = Some cannot_answer_message\<rparr>, st2)
                      else
                        (let st3 = perform (RunQuery sql_text) st2
                         in case query env bq sql_text of
                              Inl e \<Rightarrow> (Inl e, st3)
                            | Inr rs \<Rightarrow>
                                (let cols = (case rs of [] \<Rightarrow> [] | r # others \<Rightarrow> map fst r)
                                 in case serializeRows env rs of
                                      Inl e \<Rightarrow> (Inl e, st3)
                                    | Inr serialized \<Rightarrow>
                                        (Inr \<lparr>ok = True, error = None, sql = Some sql_text,
                                              rows = Some serialized, columns = Some cols,
                                              message = None\<rparr>, st3))))))"

definition agent_query :: "env \<Rightarrow> string \<Rightarrow> app \<Rightarrow> query_reply \<times> app" where
  "agent_query env userQuestion st =
     (case query_try env userQuestion st of
        (Inl e, st') \<Rightarrow>
          (\<lparr>ok = False, error = Some e, sql = None, rows = None, columns = None, message = None\<rparr>, st')
      | (Inr r, st') \<Rightarrow> (r, st'))"

subsection \<open>shell:openExternal\<close>

text \<open>
  The renderer may send any value as \<^verbatim>\<open>url\<close>; \<^verbatim>\<open>url.startsWith\<close> exists on strings
  only. \<open>Inl\<close> is an exception that leaves the handler.
\<close>

fun openExternal :: "jsval \<Rightarrow> app \<Rightarrow> (string + unit) \<times> app" where
  "openExternal (JStr url) st =
     (if prefix ''https://'' url then (Inr (), perform (OpenExternal url) st) else (Inr (), st))"
| "openExternal JUndefined st = (Inl (cannot_read ''undefined'' ''startsWith''), st)"
| "openExternal JNull st = (Inl (cannot_read ''null'' ''startsWith''), st)"
| "openExternal v st = (Inl ''url.startsWith is not a function'', st)"

subsection \<open>The rules of the normalizer, as the specification words them\<close>

text \<open>
  The specification lists six rules and fixes their order; a value gets the result
  of the first rule that applies to it. \<open>normalize_by\<close> is that reading, written
  without looking at \<open>serializeValue\<close>. It leaves open which objects count as
  wrappers: \<open>inner\<close> gives the inner value of those that do.
\<close>

datatype spec_rule = NullRule | WideIntegerRule | DateRule | UnwrapRule | ObjectRule | ScalarRule

definition spec_order :: "spec_rule list" where
  "spec_order = [NullRule, WideIntegerRule, DateRule, UnwrapRule, ObjectRule, ScalarRule]"

text \<open>What the specification calls an object: dates, arrays and property bags.\<close>

fun spec_is_object :: "jsval \<Rightarrow> bool" where
  "spec_is_object (JDate d) = True"
| "spec_is_object (JArray xs) = True"
| "spec_is_object (JObject own inherited) = True"
| "spec_is_object v = False"

text \<open>
  \<open>inner v\<close> is \<open>None\<close> when \<open>v\<close> is no wrapper, and else what the read of its inner
  value gives.
\<close>

fun rule_applies :: "(jsval \<Rightarrow> (string + jsval) option) \<Rightarrow> spec_rule \<Rightarrow> jsval \<Rightarrow> bool" where
  "rule_applies inner NullRule v = (v = JNull \<or> v = JUndefined)"
| "rule_applies inner WideIntegerRule v = (case v of JBigInt n \<Rightarrow> True | _ \<Rightarrow> False)"
| "rule_applies inner DateRule v = (case v of JDate d \<Rightarrow> True | _ \<Rightarrow> False)"
| "rule_applies inner UnwrapRule v = (case inner v of None \<Rightarrow> False | Some r \<Rightarrow> True)"
| "rule_applies inner ObjectRule v = spec_is_object v"
| "rule_applies inner ScalarRule v = True"

fun rule_result ::
  "(jsval \<Rightarrow> (string + jsval) option) \<Rightarrow> env \<Rightarrow> spec_rule \<Rightarrow> jsval \<Rightarrow> string + jsval" where
  "rule_result inner env NullRule v = Inr JNull"
| "rule_result inner env WideIntegerRule v = Inr (JNum (Number env v))"
| "rule_result inner env DateRule v = call_toISOString env v"
| "rule_result inner env UnwrapRule v = (case inner v of None \<Rightarrow> Inr v | Some r \<Rightarrow> r)"
| "rule_result inner env ObjectRule v =
     (case JSON_stringify env v of Inl e \<Rightarrow> Inl e | Inr s \<Rightarrow> Inr (JStr s))"
| "rule_result inner env ScalarRule v = Inr v"

definition normalize_by ::
  "(jsval \<Rightarrow> (string + jsval) option) \<Rightarrow> env \<Rightarrow> jsval \<Rightarrow> string + jsval" where
  "normalize_by inner env v =
     (case find (\<lambda>r. rule_applies inner r v) spec_order of
        None \<Rightarrow> Inr v
      | Some r \<Rightarrow> rule_result inner env r v)"

text \<open>
  The wrappers of the specification: objects whose \<^verbatim>\<open>value\<close>, own or inherited, is
  defined and a scalar.
\<close>

fun scalar_inner_value :: "jsval \<Rightarrow> (string + jsval) option" where
  "scalar_inner_value (JObject own inherited) =
     (case get_prop (JObject own inherited) ''value'' of
        Inl e \<Rightarrow> Some (Inl e)
      | Inr x \<Rightarrow> if x = JUndefined \<or> spec_is_object x then None else Some (Inr x))"
| "scalar_inner_value v = None"

definition spec_normalize :: "env \<Rightarrow> jsval \<Rightarrow> string + jsval" where
  "spec_normalize env v = normalize_by scalar_inner_value env v"

text \<open>The wider reading: objects whose \<^verbatim>\<open>value\<close> is anything but \<^verbatim>\<open>undefined\<close>.\<close>

fun defined_inner_value :: "jsval \<Rightarrow> (string + jsval) option" where
  "defined_inner_value (JObject own inherited) =
     (case get_prop (JObject own inherited) ''value'' of
        Inl e \<Rightarrow> Some (Inl e)
      | Inr x \<Rightarrow> if x = JUndefined then None else Some (Inr x))"
| "defined_inner_value v = None"

subsection \<open>Observations on the history of calls\<close>

fun is_RunQuery :: "effect \<Rightarrow> bool" where
  "is_RunQuery (RunQuery q) = True"
| "is_RunQuery e = False"

fun is_GetTables :: "effect \<Rightarrow> bool" where
  "is_GetTables (GetTables d) = True"
| "is_GetTables e = False"

text \<open>The number of table listings requested so far.\<close>

definition listings :: "app \<Rightarrow> nat" where
  "listings st = length (filter is_GetTables (effects st))"

text \<open>Whether a message contains a word.\<close>

fun mentions :: "string \<Rightarrow> string \<Rightarrow> bool" where
  "mentions w [] = (w = [])"
| "mentions w (c # cs) = (prefix w (c # cs) \<or> mentions w cs)"

subsection \<open>What a discovery answers and leaves in the cache\<close>

definition fetched :: "table \<Rightarrow> bool" where
  "fetched t = (case getMetadata t of Inl e \<Rightarrow> False | Inr meta \<Rightarrow> True)"

text \<open>A table whose name the cache can hold as a key.\<close>

definition ordinary :: "table \<Rightarrow> bool" where
  "ordinary t = (table_id t \<noteq> ''__proto__'')"

definition ordinary_listing :: "env \<Rightarrow> bq_client \<Rightarrow> string \<Rightarrow> bool" where
  "ordinary_listing env bq dataset =
     (case getTables env bq dataset of Inl e \<Rightarrow> True | Inr ts \<Rightarrow> list_all ordinary ts)"

definition cache_put :: "table \<Rightarrow> (string \<rightharpoonup> field list) \<Rightarrow> (string \<rightharpoonup> field list)" where
  "cache_put t c =
     (case getMetadata t of Inl e \<Rightarrow> c | Inr meta \<Rightarrow> c(table_id t \<mapsto> fields_or_empty meta))"

text \<open>
  The cache after a discovery that started from the cache \<open>c\<close>: untouched when the
  listing fails, otherwise \<open>c\<close> with the entries of the tables up to the first one whose
  metadata request fails (all of them when none fails).
\<close>

definition discovered ::
  "env \<Rightarrow> bq_client \<Rightarrow> string \<Rightarrow> (string \<rightharpoonup> field list) \<Rightarrow> (string \<rightharpoonup> field list)" where
  "discovered env bq dataset c =
     (case getTables env bq dataset of
        Inl e \<Rightarrow> c
      | Inr ts \<Rightarrow> fold cache_put (takeWhile fetched ts) c)"

text \<open>The error of the first metadata request that fails, if one does.\<close>

fun first_failure :: "table list \<Rightarrow> string option" where
  "first_failure [] = None"
| "first_failure (t # ts) =
     (case getMetadata t of Inl e \<Rightarrow> Some e | Inr meta \<Rightarrow> first_failure ts)"

text \<open>The error of a discovery: that of the listing, else that of the first failing table.\<close>

definition discovery_error :: "env \<Rightarrow> bq_client \<Rightarrow> string \<Rightarrow> string option" where
  "discovery_error env bq dataset =
     (case getTables env bq dataset of Inl e \<Rightarrow> Some e | Inr ts \<Rightarrow> first_failure ts)"

text \<open>The names of the listed tables.\<close>

definition listed :: "env \<Rightarrow> bq_client \<Rightarrow> string \<Rightarrow> string list" where
  "listed env bq dataset =
     (case getTables env bq dataset of Inl e \<Rightarrow> [] | Inr ts \<Rightarrow> map table_id ts)"

subsection \<open>Example inputs\<close>

definition quoted :: "string \<Rightarrow> string" where
  "quoted s = [CHR 0x22] @ s @ [CHR 0x22]"

definition key_file :: string where
  "key_file =
     ''{'' @ quoted ''type'' @ '':'' @ quoted ''service_account'' @ '','' @
     quoted ''client_email'' @ '':'' @ quoted ''agent@example.com'' @ ''}''"

definition key_document :: jsval where
  "key_document =
     JObject [(''type'', JStr ''service_account''), (''client_email'', JStr ''agent@example.com'')]
       []"

definition tokens_text :: string where
  "tokens_text = ''{'' @ quoted ''access_token'' @ '':'' @ quoted ''ya29'' @ ''}''"

definition tokens_document :: jsval where
  "tokens_document = JObject [(''access_token'', JStr ''ya29'')] []"

text \<open>\<^verbatim>\<open>JSON.parse\<close> on the four documents of the examples; it refuses every other text.\<close>

definition example_parse :: "string \<Rightarrow> string + jsval" where
  "example_parse s =
     (if s = ''{}'' then Inr (JObject [] [])
      else if s = ''null'' then Inr JNull
      else if s = key_file then Inr key_document
      else if s = tokens_text then Inr tokens_document
      else Inl ''Unexpected token'')"

text \<open>A row value that wraps a list: \<^verbatim>\<open>{value: []}\<close>.\<close>

definition wrapped_list :: jsval where
  "wrapped_list = JObject [(''value'', JArray [])] []"

text \<open>
  A range of dates as the warehouse library returns it: \<^verbatim>\<open>value\<close> is a getter of its
  class.
\<close>

definition date_range :: jsval where
  "date_range =
     JObject [(''elementType'', JStr ''DATE''), (''start'', JStr ''2020-01-01''),
              (''end'', JStr ''2020-12-31'')]
       [(''value'', Inr (JStr ''[2020-01-01, 2020-12-31)''))]"

definition wrapped_list_text :: string where
  "wrapped_list_text = ''{'' @ quoted ''value'' @ '':[]}''"

text \<open>\<^verbatim>\<open>JSON.stringify\<close> on the values of the examples; it refuses every other value.\<close>

definition example_stringify :: "jsval \<Rightarrow> string + string" where
  "example_stringify v =
     (if v = JObject [] [] then Inr ''{}''
      else if v = JArray [] then Inr ''[]''
      else if v = tokens_document then Inr tokens_text
      else if v = wrapped_list then Inr wrapped_list_text
      else Inl ''Converting circular structure to JSON'')"

definition calls_fields :: "field list" where
  "calls_fields =
     [\<lparr>field_name = ''direction'', field_type = ''STRING''\<rparr>,
      \<lparr>field_name = ''timestamp'', field_type = ''TIMESTAMP''\<rparr>]"

definition calls_table :: table where
  "calls_table = \<lparr>table_id = ''calls'', getMetadata = Inr (Some calls_fields)\<rparr>"

definition queues_table :: table where
  "queues_table = \<lparr>table_id = ''queues'', getMetadata = Inl ''Access Denied: Table queues''\<rparr>"

text \<open>
  A world in which the user picks a service-account key file, the dataset has the one
  table \<^verbatim>\<open>calls\<close>, the model finds no answer and the token endpoint refuses every
  exchange. \<open>Number\<close> is exact on the integers the examples use, and \<open>toISOString\<close>
  is given for the epoch only.
\<close>

definition example_env :: env where
  "example_env =
     \<lparr>showOpenDialog = \<lparr>canceled = False, filePaths = [''/home/user/key.json'']\<rparr>,
      readFileSync = (\<lambda>p. if p = ''/home/user/key.json'' then Inr key_file
                           else Inl ''ENOENT: no such file or directory''),
      JSON_parse = example_parse,
      JSON_stringify = example_stringify,
      Number = (\<lambda>v. case v of JBigInt n \<Rightarrow> Finite (of_int n) | _ \<Rightarrow> NaN),
      toISOString = (\<lambda>t. if t = 0 then ''1970-01-01T00:00:00.000Z'' else []),
      generateAuthUrl = (\<lambda>c. ''https://accounts.google.com/o/oauth2/v2/auth''),
      getToken = (\<lambda>c code. Inl ''invalid_client''),
      getTables = (\<lambda>bq dataset. Inr [calls_table]),
      generateContent = (\<lambda>ai p. Inr (''CANNOT_ANSWER'' @ [CHR 0x0A])),
      query = (\<lambda>bq q. Inr [])\<rparr>"

text \<open>Settings saved, nothing cached yet; the method is the ambient one.\<close>

definition configured :: app where
  "configured =
     \<lparr>store = [''projectId'' \<mapsto> ''my-project'', ''datasetId'' \<mapsto> ''pbx'',
               ''geminiKey'' \<mapsto> ''AIza'', ''authMethod'' \<mapsto> ''apiKey''],
      bigqueryClient = None,
      geminiClient = None,
      tableSchemaCache = Map.empty,
      effects = []\<rparr>"

text \<open>The same after a connection test: a client and the schema of \<^verbatim>\<open>calls\<close> are cached.\<close>

definition connected :: app where
  "connected =
     configured\<lparr>bigqueryClient := Some (BigQuery ''my-project'' Ambient),
                tableSchemaCache := [''calls'' \<mapsto> calls_fields]\<rparr>"

text \<open>A key file is stored and selected, but neither a model key nor a dataset.\<close>

definition keyed :: app where
  "keyed =
     \<lparr>store = [''projectId'' \<mapsto> ''my-project'', ''authMethod'' \<mapsto> ''serviceAccount'',
               ''serviceAccountJson'' \<mapsto> key_file],
      bigqueryClient = None,
      geminiClient = None,
      tableSchemaCache = Map.empty,
      effects = []\<rparr>"

text \<open>The same with a model key.\<close>

definition keyed_with_model :: app where
  "keyed_with_model = keyed\<lparr>store := (store keyed)(''geminiKey'' \<mapsto> ''AIza'')\<rparr>"

text \<open>The dataset has a second table whose metadata the account may not read.\<close>

definition denied_env :: env where
  "denied_env = example_env\<lparr>getTables := (\<lambda>bq dataset. Inr [calls_table, queues_table])\<rparr>"

text \<open>The dataset has no table yet.\<close>

definition empty_dataset_env :: env where
  "empty_dataset_env = example_env\<lparr>getTables := (\<lambda>bq dataset. Inr [])\<rparr>"

text \<open>The chosen file holds the JSON literal \<^verbatim>\<open>null\<close>, or the empty object.\<close>

definition null_file_env :: env where
  "null_file_env = example_env\<lparr>readFileSync := (\<lambda>p. Inr ''null'')\<rparr>"

definition empty_object_env :: env where
  "empty_object_env = example_env\<lparr>readFileSync := (\<lambda>p. Inr ''{}'')\<rparr>"

text \<open>A save that leaves two fields out and sends the other two empty.\<close>

definition empty_form :: config where
  "empty_form = \<lparr>projectId = Some [], datasetId = None, geminiKey = Some [], authMethod = None\<rparr>"

text \<open>The state that the first discovery of the example leaves.\<close>

definition discovered_once :: app where
  "discovered_once =
     configured\<lparr>tableSchemaCache := [''calls'' \<mapsto> calls_fields],
                effects := [GetTables ''pbx'', GetMetadata ''calls'']\<rparr>"

section \<open>Properties\<close>

subsection \<open>Frames of the helpers\<close>

lemma parse_key_file: "example_parse key_file = Inr key_document"
  by (simp add: example_parse_def key_file_def quoted_def)

lemma key_file_nonempty: "key_file \<noteq> []"
  by (simp add: key_file_def)

lemma getBigQueryClient_frame:
  "store (snd (getBigQueryClient env st)) = store st
   \<and> geminiClient (snd (getBigQueryClient env st)) = geminiClient st
   \<and> tableSchemaCache (snd (getBigQueryClient env st)) = tableSchemaCache st
   \<and> effects (snd (getBigQueryClient env st)) = effects st"
  by (simp add: getBigQueryClient_def split: option.splits sum.splits)

lemma getBigQueryClient_result:
  "getBigQueryClient env st = (r, st1) \<Longrightarrow>
     store st1 = store st \<and> geminiClient st1 = geminiClient st
     \<and> tableSchemaCache st1 = tableSchemaCache st \<and> effects st1 = effects st"
  using getBigQueryClient_frame[of env st] by simp

lemma getGeminiClient_frame:
  "store (snd (getGeminiClient st)) = store st
   \<and> bigqueryClient (snd (getGeminiClient st)) = bigqueryClient st
   \<and> tableSchemaCache (snd (getGeminiClient st)) = tableSchemaCache st
   \<and> effects (snd (getGeminiClient st)) = effects st"
  by (simp add: getGeminiClient_def split: option.splits sum.splits)

lemma getGeminiClient_result:
  "getGeminiClient st = (r, st1) \<Longrightarrow>
     store st1 = store st \<and> bigqueryClient st1 = bigqueryClient st
     \<and> tableSchemaCache st1 = tableSchemaCache st \<and> effects st1 = effects st"
  using getGeminiClient_frame[of st] by simp

subsection \<open>The metadata loop\<close>

lemma cacheTableSchemas_cache:
  "list_all ordinary ts \<Longrightarrow>
     tableSchemaCache (snd (cacheTableSchemas ts st)) =
       fold cache_put (takeWhile fetched ts) (tableSchemaCache st)"
  by (induction ts arbitrary: st)
     (auto simp: perform_def Let_def fetched_def cache_put_def ordinary_def assign_own_def
           split: sum.splits)

lemma cacheTableSchemas_error: "fst (cacheTableSchemas ts st) = first_failure ts"
  by (induction ts arbitrary: st) (auto simp: perform_def Let_def split: sum.splits)

lemma cacheTableSchemas_result: "cacheTableSchemas ts st = (r, st') \<Longrightarrow> r = first_failure ts"
  using cacheTableSchemas_error[of ts st] by simp

lemma first_failure_fetched: "(first_failure ts = None) = list_all fetched ts"
  by (induction ts) (auto simp: fetched_def split: sum.splits)

lemma cacheTableSchemas_frame:
  "store (snd (cacheTableSchemas ts st)) = store st
   \<and> bigqueryClient (snd (cacheTableSchemas ts st)) = bigqueryClient st
   \<and> geminiClient (snd (cacheTableSchemas ts st)) = geminiClient st"
  by (induction ts arbitrary: st) (auto simp: perform_def Let_def split: sum.splits)

lemma cacheTableSchemas_listings: "listings (snd (cacheTableSchemas ts st)) = listings st"
  by (induction ts arbitrary: st) (auto simp: perform_def listings_def Let_def split: sum.splits)

lemma cacheTableSchemas_queries:
  "filter is_RunQuery (effects (snd (cacheTableSchemas ts st))) = filter is_RunQuery (effects st)"
  by (induction ts arbitrary: st) (auto simp: perform_def Let_def split: sum.splits)

lemma cacheTableSchemas_grows:
  "dom (tableSchemaCache st) \<subseteq> dom (tableSchemaCache (snd (cacheTableSchemas ts st)))"
proof (induction ts arbitrary: st)
  case Nil
  show ?case by simp
next
  case (Cons t ts)
  show ?case
  proof (cases "getMetadata t")
    case (Inl e)
    then show ?thesis by (simp add: perform_def)
  next
    case (Inr meta)
    let ?st = "(perform (GetMetadata (table_id t)) st)\<lparr>tableSchemaCache :=
      assign_own (table_id t) (fields_or_empty meta)
        (tableSchemaCache (perform (GetMetadata (table_id t)) st))\<rparr>"
    have "dom (tableSchemaCache st) \<subseteq> dom (tableSchemaCache ?st)"
      by (auto simp: perform_def assign_own_def)
    also have "\<dots> \<subseteq> dom (tableSchemaCache (snd (cacheTableSchemas ts ?st)))"
      by (rule Cons.IH)
    finally show ?thesis
      using Inr by (simp add: Let_def)
  qed
qed

lemma cacheTableSchemas_holds:
  "first_failure ts = None \<Longrightarrow> t \<in> set ts \<Longrightarrow> ordinary t \<Longrightarrow>
     table_id t \<in> dom (tableSchemaCache (snd (cacheTableSchemas ts st)))"
proof (induction ts arbitrary: st)
  case Nil
  then show ?case by simp
next
  case (Cons u ts)
  from Cons.prems(1) obtain meta where meta: "getMetadata u = Inr meta"
    by (cases "getMetadata u") auto
  with Cons.prems(1) have rest: "first_failure ts = None"
    by simp
  let ?st = "(perform (GetMetadata (table_id u)) st)\<lparr>tableSchemaCache :=
    assign_own (table_id u) (fields_or_empty meta)
      (tableSchemaCache (perform (GetMetadata (table_id u)) st))\<rparr>"
  have step: "snd (cacheTableSchemas (u # ts) st) = snd (cacheTableSchemas ts ?st)"
    using meta by (simp add: Let_def)
  show ?case
  proof (cases "t = u")
    case True
    with Cons.prems(3) have "table_id t \<in> dom (tableSchemaCache ?st)"
      by (simp add: ordinary_def assign_own_def)
    with cacheTableSchemas_grows[of ?st ts] show ?thesis
      unfolding step by blast
  next
    case False
    with Cons.prems(2) have "t \<in> set ts"
      by simp
    from Cons.IH[OF rest this Cons.prems(3)] show ?thesis
      unfolding step .
  qed
qed

subsection \<open>Discovery\<close>

lemma snd_discoverSchema:
  "snd (discoverSchema env bq dataset st) =
     (case getTables env bq dataset of
        Inl e \<Rightarrow> perform (GetTables dataset) st
      | Inr ts \<Rightarrow> snd (cacheTableSchemas ts (perform (GetTables dataset) st)))"
  by (simp add: discoverSchema_def Let_def split: sum.splits prod.splits option.splits)

lemma fst_discoverSchema:
  "fst (discoverSchema env bq dataset st) =
     (case getTables env bq dataset of
        Inl e \<Rightarrow> Inl e
      | Inr ts \<Rightarrow> (case first_failure ts of Some e \<Rightarrow> Inl e | None \<Rightarrow> Inr ts))"
  by (auto simp: discoverSchema_def Let_def split: sum.splits prod.splits option.splits
       dest: cacheTableSchemas_result)

lemma discoverSchema_cache:
  "ordinary_listing env bq dataset \<Longrightarrow>
     tableSchemaCache (snd (discoverSchema env bq dataset st)) =
       discovered env bq dataset (tableSchemaCache st)"
  by (simp add: snd_discoverSchema discovered_def ordinary_listing_def cacheTableSchemas_cache
        perform_def split: sum.splits)

lemma discoverSchema_listings:
  "listings (snd (discoverSchema env bq dataset st)) = Suc (listings st)"
  by (simp add: snd_discoverSchema cacheTableSchemas_listings split: sum.splits)
     (simp add: listings_def perform_def)

lemma discoverSchema_queries:
  "filter is_RunQuery (effects (snd (discoverSchema env bq dataset st))) =
     filter is_RunQuery (effects st)"
  by (simp add: snd_discoverSchema cacheTableSchemas_queries split: sum.splits)
     (simp add: perform_def)

lemma snd_ensureSchema:
  "snd (ensureSchema env bq dataset st) =
     (if tableSchemaCache st = Map.empty then snd (discoverSchema env bq dataset st) else st)"
  by (simp add: ensureSchema_def split: sum.splits prod.splits)

lemma fst_ensureSchema:
  "fst (ensureSchema env bq dataset st) =
     (if tableSchemaCache st = Map.empty then discovery_error env bq dataset else None)"
  using fst_discoverSchema[of env bq dataset st]
  by (auto simp: ensureSchema_def discovery_error_def split: sum.splits prod.splits option.splits)

lemma ensureSchema_queries:
  "filter is_RunQuery (effects (snd (ensureSchema env bq dataset st))) =
     filter is_RunQuery (effects st)"
  by (simp add: snd_ensureSchema discoverSchema_queries)

lemma ensureSchema_result:
  "ensureSchema env bq dataset st = (r, st1) \<Longrightarrow>
     filter is_RunQuery (effects st1) = filter is_RunQuery (effects st)"
  using ensureSchema_queries[of env bq dataset st] by simp

text \<open>
  A successful first discovery fills the cache as soon as one listed table has a name
  that the cache can hold.
\<close>

lemma ensureSchema_fills_cache:
  assumes "ensureSchema env bq dataset st = (None, st1)"
    and "getTables env bq dataset = Inr ts" and "t \<in> set ts" and "ordinary t"
  shows "tableSchemaCache st1 \<noteq> Map.empty"
proof (cases "tableSchemaCache st = Map.empty")
  case False
  with assms(1) show ?thesis
    by (simp add: ensureSchema_def)
next
  case True
  from assms(1) have "fst (ensureSchema env bq dataset st) = None"
    by simp
  with True assms(2) have ok: "first_failure ts = None"
    by (simp add: fst_ensureSchema discovery_error_def)
  from assms(1) have "st1 = snd (ensureSchema env bq dataset st)"
    by simp
  with True assms(2) have
    "st1 = snd (cacheTableSchemas ts (perform (GetTables dataset) st))"
    by (simp add: snd_ensureSchema snd_discoverSchema)
  with cacheTableSchemas_holds[OF ok assms(3,4)] have "table_id t \<in> dom (tableSchemaCache st1)"
    by simp
  then show ?thesis
    by auto
qed

subsection \<open>The two handlers that discover the schema\<close>

lemma testConnection_snd:
  assumes "getBigQueryClient env st = (Inr bq, st1)"
    and "store st ''datasetId'' = Some dataset" and "dataset \<noteq> []"
  shows "snd (testConnection env st) = snd (discoverSchema env bq dataset st1)"
proof -
  have "store st1 = store st"
    using getBigQueryClient_frame[of env st] assms(1) by simp
  with assms show ?thesis
    by (simp add: testConnection_def testConnection_try_def split: sum.splits prod.splits)
qed

lemma testConnection_fst:
  assumes "getBigQueryClient env st = (Inr bq, st1)"
    and "store st ''datasetId'' = Some dataset" and "dataset \<noteq> []"
  shows "fst (testConnection env st) =
           (case fst (discoverSchema env bq dataset st1) of
              Inl e \<Rightarrow> \<lparr>ok = False, error = Some e, tables = None\<rparr>
            | Inr ts \<Rightarrow> \<lparr>ok = True, error = None, tables = Some (map table_id ts)\<rparr>)"
proof -
  have "store st1 = store st"
    using getBigQueryClient_frame[of env st] assms(1) by simp
  with assms show ?thesis
    by (simp add: testConnection_def testConnection_try_def split: sum.splits prod.splits)
qed

lemma query_prepare_snd:
  assumes "getBigQueryClient env st = (Inr bq, st1)" and "getGeminiClient st1 = (Inr ai, st2)"
    and "store st ''datasetId'' = Some dataset" and "dataset \<noteq> []"
  shows "snd (query_prepare env q st) = snd (ensureSchema env bq dataset st2)"
proof -
  have "store st2 = store st"
    using getBigQueryClient_frame[of env st] getGeminiClient_frame[of st1] assms(1,2) by simp
  with assms show ?thesis
    by (simp add: query_prepare_def split: sum.splits prod.splits option.splits)
qed

lemma query_prepare_error:
  assumes "getBigQueryClient env st = (Inr bq, st1)" and "getGeminiClient st1 = (Inr ai, st2)"
    and "store st ''datasetId'' = Some dataset" and "dataset \<noteq> []"
    and "fst (ensureSchema env bq dataset st2) = Some e"
  shows "fst (query_prepare env q st) = Inl e"
proof -
  have "store st2 = store st"
    using getBigQueryClient_frame[of env st] getGeminiClient_frame[of st1] assms(1,2) by simp
  with assms show ?thesis
    by (cases "ensureSchema env bq dataset st2") (simp add: query_prepare_def)
qed

lemma agent_query_prepare_error:
  "fst (query_prepare env q st) = Inl e \<Longrightarrow>
     fst (agent_query env q st) =
       \<lparr>ok = False, error = Some e, sql = None, rows = None, columns = None, message = None\<rparr>"
  by (cases "query_prepare env q st") (simp add: agent_query_def query_try_def)

lemma query_prepare_queries:
  "filter is_RunQuery (effects (snd (query_prepare env q st))) = filter is_RunQuery (effects st)"
  by (auto simp: query_prepare_def split: sum.splits prod.splits option.splits
        dest!: getBigQueryClient_result getGeminiClient_result ensureSchema_result)

lemma query_try_cache:
  "tableSchemaCache (snd (query_try env q st)) = tableSchemaCache (snd (query_prepare env q st))"
  by (simp add: query_try_def perform_def Let_def split: sum.splits prod.splits list.splits)

lemma agent_query_snd: "snd (agent_query env q st) = snd (query_try env q st)"
  by (simp add: agent_query_def split: sum.splits prod.splits)

subsection \<open>The schema cache under the credential handlers\<close>

text \<open>
  Neither the upload of a key file, nor the start of the browser sign-in, nor the
  submission of a code ever writes the schema cache; the sign-in leaves the cached
  client too.
\<close>

lemma pickJsonFile_cache: "tableSchemaCache (snd (pickJsonFile env st)) = tableSchemaCache st"
  by (auto simp: pickJsonFile_def pickJsonFile_try_def store_set_def Let_def
           split: list.splits sum.splits prod.splits if_splits)

lemma submitOauthCode_cache:
  "tableSchemaCache (snd (submitOauthCode env code st)) = tableSchemaCache st"
  by (auto simp: submitOauthCode_def submitOauthCode_try_def store_set_def perform_def Let_def
           split: list.splits sum.splits prod.splits if_splits)

lemma browserLogin_cache:
  "tableSchemaCache (snd (browserLogin env st)) = tableSchemaCache st
   \<and> bigqueryClient (snd (browserLogin env st)) = bigqueryClient st"
  by (auto simp: browserLogin_def store_set_def perform_def Let_def
           split: list.splits sum.splits prod.splits if_splits)

subsection \<open>The validation of an uploaded document\<close>

text \<open>
  A document whose \<^verbatim>\<open>type\<close> can be read and is not \<^verbatim>\<open>service_account\<close> (absent
  included) is refused with the invalid-key message, and nothing changes.
\<close>

lemma pickJsonFile_rejects:
  assumes "\<not> canceled (showOpenDialog env)"
    and "filePaths (showOpenDialog env) = path # others"
    and "readFileSync env path = Inr raw"
    and "JSON_parse env raw = Inr doc"
    and "get_prop doc ''type'' = Inr t"
    and "t \<noteq> JStr ''service_account''"
  shows "pickJsonFile env st = (\<lparr>ok = False, error = Some not_a_key_file, email = None\<rparr>, st)"
  using assms
  by (auto simp: pickJsonFile_def pickJsonFile_try_def Let_def split: sum.splits)

lemma pickJsonFile_rejects_empty_object:
  "pickJsonFile empty_object_env connected =
     (\<lparr>ok = False, error = Some not_a_key_file, email = None\<rparr>, connected)"
  using pickJsonFile_rejects[of empty_object_env "''/home/user/key.json''" "[]" "''{}''"
      "JObject [] []" JUndefined connected]
  by (simp add: empty_object_env_def example_env_def example_parse_def)

section \<open>The claims\<close>

text \<open>
  C1. Every successful write of a credential-relevant field leaves the cached client
  absent and the schema cache empty. The code does not do this on the upload path:
  after a connection test has cached a client and the schema of \<^verbatim>\<open>calls\<close>, a
  successful upload of a key file stores the key, drops the client and keeps the
  schema cache as it was.
\<close>

theorem upload_keeps_schema_cache:
  "fst (pickJsonFile example_env connected) =
     \<lparr>ok = True, error = None, email = Some (JStr ''agent@example.com'')\<rparr>
   \<and> store (snd (pickJsonFile example_env connected)) ''serviceAccountJson'' = Some key_file
   \<and> store (snd (pickJsonFile example_env connected)) ''authMethod'' = Some ''serviceAccount''
   \<and> bigqueryClient (snd (pickJsonFile example_env connected)) = None
   \<and> tableSchemaCache (snd (pickJsonFile example_env connected)) = [''calls'' \<mapsto> calls_fields]
   \<and> tableSchemaCache (snd (pickJsonFile example_env connected)) \<noteq> Map.empty"
  by (simp add: pickJsonFile_def pickJsonFile_try_def example_env_def parse_key_file store_set_def
        connected_def configured_def key_document_def Let_def)

text \<open>
  C2, as amended. Take a schema discovery (the connectivity check, or the lazy one of
  a question that finds the cache empty) whose listing has no table named
  \<^verbatim>\<open>__proto__\<close>. When the table listing fails, the cache is left untouched. Otherwise
  the cache is the previous one overwritten with the entries of the listed tables that
  come before the first table whose metadata request fails, which is all of them
  when none fails. Whatever the names, a failure of the listing or of a metadata
  request is reported with its message, by the connectivity check as
  \<^verbatim>\<open>{ok: false, error}\<close> and by the question as \<^verbatim>\<open>{ok: false, error, sql: null}\<close>, and
  without a failure the connectivity check answers the listed names.
\<close>

theorem schema_discovery_cache:
  assumes "getBigQueryClient env st = (Inr bq, st1)"
    and "store st ''datasetId'' = Some dataset" and "dataset \<noteq> []"
  shows "(ordinary_listing env bq dataset \<longrightarrow>
            tableSchemaCache (snd (testConnection env st)) =
              discovered env bq dataset (tableSchemaCache st))
     \<and> fst (testConnection env st) =
         (case discovery_error env bq dataset of
            Some e \<Rightarrow> \<lparr>ok = False, error = Some e, tables = None\<rparr>
          | None \<Rightarrow> \<lparr>ok = True, error = None, tables = Some (listed env bq dataset)\<rparr>)
     \<and> (\<not> isl (fst (getGeminiClient st1)) \<and> tableSchemaCache st = Map.empty \<longrightarrow>
          (ordinary_listing env bq dataset \<longrightarrow>
             tableSchemaCache (snd (agent_query env q st)) = discovered env bq dataset Map.empty)
          \<and> (case discovery_error env bq dataset of
               Some e \<Rightarrow>
                 fst (agent_query env q st) =
                   \<lparr>ok = False, error = Some e, sql = None, rows = None, columns = None,
                    message = None\<rparr>
             | None \<Rightarrow> True))"
proof -
  have frame: "tableSchemaCache st1 = tableSchemaCache st"
    using getBigQueryClient_frame[of env st] assms(1) by simp
  have a: "tableSchemaCache (snd (testConnection env st)) =
             discovered env bq dataset (tableSchemaCache st)"
    if "ordinary_listing env bq dataset"
    using that by (simp add: testConnection_snd[OF assms] discoverSchema_cache frame)
  have b: "fst (testConnection env st) =
         (case discovery_error env bq dataset of
            Some e \<Rightarrow> \<lparr>ok = False, error = Some e, tables = None\<rparr>
          | None \<Rightarrow> \<lparr>ok = True, error = None, tables = Some (listed env bq dataset)\<rparr>)"
    by (simp add: testConnection_fst[OF assms] fst_discoverSchema discovery_error_def listed_def
          split: sum.splits option.splits)
  have c: "(ordinary_listing env bq dataset \<longrightarrow>
             tableSchemaCache (snd (agent_query env q st)) = discovered env bq dataset Map.empty)
          \<and> (case discovery_error env bq dataset of
               Some e \<Rightarrow>
                 fst (agent_query env q st) =
                   \<lparr>ok = False, error = Some e, sql = None, rows = None, columns = None,
                    message = None\<rparr>
             | None \<Rightarrow> True)"
    if g: "\<not> isl (fst (getGeminiClient st1))" and e: "tableSchemaCache st = Map.empty"
  proof -
    from g obtain ai where "fst (getGeminiClient st1) = Inr ai"
      by (cases "fst (getGeminiClient st1)") auto
    then obtain st2 where st2: "getGeminiClient st1 = (Inr ai, st2)"
      by (cases "getGeminiClient st1") auto
    then have "tableSchemaCache st2 = tableSchemaCache st1"
      using getGeminiClient_frame[of st1] by simp
    with frame e have e2: "tableSchemaCache st2 = Map.empty"
      by simp
    have cache: "tableSchemaCache (snd (agent_query env q st)) =
            discovered env bq dataset Map.empty"
      if o: "ordinary_listing env bq dataset"
    proof -
      have "tableSchemaCache (snd (agent_query env q st)) =
              tableSchemaCache (snd (ensureSchema env bq dataset st2))"
        by (simp add: agent_query_snd query_try_cache
              query_prepare_snd[OF assms(1) st2 assms(2,3)])
      also have "\<dots> = discovered env bq dataset Map.empty"
        using e2 o by (simp add: snd_ensureSchema discoverSchema_cache)
      finally show ?thesis .
    qed
    have reply: "fst (agent_query env q st) =
                   \<lparr>ok = False, error = Some x, sql = None, rows = None, columns = None,
                    message = None\<rparr>"
      if x: "discovery_error env bq dataset = Some x" for x
    proof -
      have "fst (ensureSchema env bq dataset st2) = Some x"
        using e2 x by (simp add: fst_ensureSchema)
      then have "fst (query_prepare env q st) = Inl x"
        by (rule query_prepare_error[OF assms(1) st2 assms(2,3)])
      then show ?thesis
        by (rule agent_query_prepare_error)
    qed
    from cache reply show ?thesis
      by (auto split: option.splits)
  qed
  from a b c show ?thesis by blast
qed

text \<open>
  The connectivity check on a dataset whose second table refuses its metadata: the
  check fails with the message of that table and the first table stays in the cache.
\<close>

theorem schema_discovery_cache_witness:
  "tableSchemaCache (snd (testConnection denied_env configured)) = [''calls'' \<mapsto> calls_fields]
   \<and> fst (testConnection denied_env configured) =
       \<lparr>ok = False, error = Some ''Access Denied: Table queues'', tables = None\<rparr>"
  using schema_discovery_cache[of denied_env configured "BigQuery ''my-project'' Ambient"
      "configured\<lparr>bigqueryClient := Some (BigQuery ''my-project'' Ambient)\<rparr>" "''pbx''"
      "''how many calls''"]
  by (simp add: getBigQueryClient_def newBigQuery_def store_get_def getGeminiClient_def
        configured_def denied_env_def example_env_def discovered_def fetched_def cache_put_def
        ordinary_listing_def ordinary_def discovery_error_def listed_def
        calls_table_def queues_table_def)

text \<open>
  C2 as stated fails: a question asked with an empty cache, on the same dataset,
  ends with the error of the second table and with a cache that is no longer the
  one it started from.
\<close>

theorem lazy_discovery_partial_write:
  "tableSchemaCache configured = Map.empty
   \<and> fst (agent_query denied_env ''how many calls'' configured) =
       \<lparr>ok = False, error = Some ''Access Denied: Table queues'', sql = None, rows = None,
        columns = None, message = None\<rparr>
   \<and> tableSchemaCache (snd (agent_query denied_env ''how many calls'' configured)) =
       [''calls'' \<mapsto> calls_fields]
   \<and> tableSchemaCache (snd (agent_query denied_env ''how many calls'' configured)) \<noteq>
       tableSchemaCache configured"
  by (simp add: agent_query_def query_try_def query_prepare_def ensureSchema_def discoverSchema_def
        getBigQueryClient_def newBigQuery_def store_get_def getGeminiClient_def configured_def
        denied_env_def example_env_def calls_table_def queues_table_def perform_def Let_def
        assign_own_def)

text \<open>
  C3, as amended. When the ensure-schema step succeeds and leaves a cache that is not
  empty, a second call right after it, whatever the world then answers, performs no
  remote call and leaves the same state, so the same mapping; the first call has
  requested one listing when it found the cache empty and none otherwise.
\<close>

theorem ensureSchema_second_call:
  assumes "ensureSchema env bq dataset st = (None, st1)"
    and "tableSchemaCache st1 \<noteq> Map.empty"
  shows "ensureSchema env' bq' dataset' st1 = (None, st1)
     \<and> listings st1 = listings st + (if tableSchemaCache st = Map.empty then 1 else 0)"
proof -
  from assms(2) have second: "ensureSchema env' bq' dataset' st1 = (None, st1)"
    by (simp add: ensureSchema_def)
  from assms(1) have "st1 = snd (ensureSchema env bq dataset st)"
    by simp
  then have "listings st1 = listings st + (if tableSchemaCache st = Map.empty then 1 else 0)"
    by (simp add: snd_ensureSchema discoverSchema_listings)
  with second show ?thesis
    by simp
qed

text \<open>Two calls on the dataset with the table \<^verbatim>\<open>calls\<close>: one listing, one metadata request.\<close>

theorem ensureSchema_second_call_witness:
  "ensureSchema example_env (BigQuery ''my-project'' Ambient) ''pbx'' configured =
     (None, discovered_once)
   \<and> tableSchemaCache discovered_once \<noteq> Map.empty
   \<and> ensureSchema example_env (BigQuery ''my-project'' Ambient) ''pbx'' discovered_once =
     (None, discovered_once)
   \<and> listings discovered_once = 1"
  using ensureSchema_second_call[of example_env "BigQuery ''my-project'' Ambient" "''pbx''"
      configured discovered_once example_env "BigQuery ''my-project'' Ambient" "''pbx''"]
  by (simp add: ensureSchema_def discoverSchema_def configured_def discovered_once_def
        example_env_def calls_table_def perform_def listings_def assign_own_def)

text \<open>
  C3 as stated fails on a dataset without tables: the first call lists and leaves
  the cache empty, and the second call lists again.
\<close>

theorem ensureSchema_empty_dataset_lists_twice:
  "ensureSchema empty_dataset_env (BigQuery ''my-project'' Ambient) ''pbx'' configured =
     (None, configured\<lparr>effects := [GetTables ''pbx'']\<rparr>)
   \<and> ensureSchema empty_dataset_env (BigQuery ''my-project'' Ambient) ''pbx''
       (configured\<lparr>effects := [GetTables ''pbx'']\<rparr>) =
     (None, configured\<lparr>effects := [GetTables ''pbx'', GetTables ''pbx'']\<rparr>)
   \<and> listings (configured\<lparr>effects := [GetTables ''pbx'', GetTables ''pbx'']\<rparr>) =
       listings configured + 2"
  by (simp add: ensureSchema_def discoverSchema_def configured_def empty_dataset_env_def
        example_env_def perform_def listings_def)

text \<open>
  C4. When the handler reaches the model and the model's text, trimmed of surrounding
  white space, is the sentinel \<^verbatim>\<open>CANNOT_ANSWER\<close>, the reply is
  \<^verbatim>\<open>{ok: true, sql: null, rows: [], columns: [], message}\<close> with the fixed, non-empty
  guidance message, and no query has been sent to the warehouse.
\<close>

theorem query_cannot_answer:
  assumes "query_prepare env q st = (Inr (bq, ai, p), st1)"
    and "generateContent env ai p = Inr text"
    and "trim text = ''CANNOT_ANSWER''"
  shows "agent_query env q st =
           (\<lparr>ok = True, error = None, sql = None, rows = Some [], columns = Some [],
             message = Some cannot_answer_message\<rparr>, perform GenerateContent st1)
     \<and> cannot_answer_message \<noteq> []
     \<and> filter is_RunQuery (effects (snd (agent_query env q st))) = filter is_RunQuery (effects st)"
proof -
  have "filter is_RunQuery (effects st1) = filter is_RunQuery (effects st)"
    using query_prepare_queries[of env q st] assms(1) by simp
  with assms show ?thesis
    by (simp add: agent_query_def query_try_def Let_def perform_def cannot_answer_message_def)
qed

text \<open>A question on the connected state, where the model answers the sentinel and a line feed.\<close>

theorem query_cannot_answer_witness:
  "agent_query example_env ''who called the moon'' connected =
     (\<lparr>ok = True, error = None, sql = None, rows = Some [], columns = Some [],
       message = Some cannot_answer_message\<rparr>,
      connected\<lparr>geminiClient := Some (GoogleGenerativeAI ''AIza''), effects := [GenerateContent]\<rparr>)"
  using query_cannot_answer[of example_env "''who called the moon''" connected
      "BigQuery ''my-project'' Ambient" "GoogleGenerativeAI ''AIza''"
      "\<lparr>prompt_schema = [''calls'' \<mapsto> calls_fields], prompt_project = Some ''my-project'',
        prompt_dataset = Some ''pbx'', prompt_question = ''who called the moon''\<rparr>"
      "connected\<lparr>geminiClient := Some (GoogleGenerativeAI ''AIza'')\<rparr>"
      "''CANNOT_ANSWER'' @ [CHR 0x0A]"]
  by (simp add: query_prepare_def getBigQueryClient_def getGeminiClient_def ensureSchema_def
        connected_def configured_def example_env_def trim_def js_whitespace_def perform_def)

text \<open>
  C5, as amended. A question asked while \<^verbatim>\<open>datasetId\<close> is absent or empty, when the
  warehouse client resolves and a model client is cached or \<^verbatim>\<open>geminiKey\<close> is
  configured, is answered \<^verbatim>\<open>{ok: false, error, sql: null}\<close> with a message that
  mentions the dataset, and no remote call is made.
\<close>

theorem query_without_dataset:
  assumes "\<not> present (store st ''datasetId'')"
    and "fst (getBigQueryClient env st) = Inr bq"
    and "geminiClient st \<noteq> None \<or> present (store st ''geminiKey'')"
  shows "fst (agent_query env q st) =
           \<lparr>ok = False, error = Some no_dataset, sql = None, rows = None, columns = None,
            message = None\<rparr>
     \<and> mentions ''dataset'' no_dataset
     \<and> effects (snd (agent_query env q st)) = effects st"
proof -
  obtain st1 where st1: "getBigQueryClient env st = (Inr bq, st1)"
    using assms(2) by (cases "getBigQueryClient env st") auto
  note f1 = getBigQueryClient_result[OF st1]
  from assms(3) f1 have "\<exists>ai st2. getGeminiClient st1 = (Inr ai, st2)"
    by (cases "store st ''geminiKey''") (auto simp: getGeminiClient_def split: option.splits)
  then obtain ai st2 where st2: "getGeminiClient st1 = (Inr ai, st2)"
    by blast
  note f2 = getGeminiClient_result[OF st2]
  from assms(1) f1 f2 have "query_prepare env q st = (Inl no_dataset, st2)"
    by (cases "store st ''datasetId''") (simp_all add: query_prepare_def st1 st2)
  with f1 f2 show ?thesis
    by (simp add: agent_query_def query_try_def no_dataset_def)
qed

text \<open>A key file and a model key are stored, a dataset is not.\<close>

theorem query_without_dataset_witness:
  "fst (agent_query example_env ''how many calls'' keyed_with_model) =
     \<lparr>ok = False, error = Some ''No BigQuery dataset configured.'', sql = None, rows = None,
      columns = None, message = None\<rparr>
   \<and> effects (snd (agent_query example_env ''how many calls'' keyed_with_model)) = []"
  using query_without_dataset[of keyed_with_model example_env
      "BigQuery ''my-project'' (Credentials key_document)" "''how many calls''"]
  by (simp add: keyed_with_model_def keyed_def getBigQueryClient_def newBigQuery_def store_get_def
        example_env_def parse_key_file key_file_nonempty no_dataset_def)

text \<open>
  C5 as stated fails when the model key is missing too: the project and the key file
  are stored, the warehouse client is constructed, and the error is the one of the
  model key, which does not mention the dataset.
\<close>

theorem query_without_model_key:
  "store keyed ''projectId'' = Some ''my-project''
   \<and> store keyed ''serviceAccountJson'' = Some key_file
   \<and> fst (getBigQueryClient example_env keyed) =
       Inr (BigQuery ''my-project'' (Credentials key_document))
   \<and> store keyed ''datasetId'' = None
   \<and> fst (agent_query example_env ''how many calls'' keyed) =
       \<lparr>ok = False, error = Some no_gemini_key, sql = None, rows = None, columns = None,
        message = None\<rparr>
   \<and> \<not> mentions ''dataset'' no_gemini_key"
  by (simp add: keyed_def getBigQueryClient_def newBigQuery_def store_get_def example_env_def
        parse_key_file key_file_nonempty agent_query_def query_try_def query_prepare_def
        getGeminiClient_def)
     (simp add: no_gemini_key_def)

text \<open>
  C6. An upload whose document parses and whose \<^verbatim>\<open>type\<close> is absent or is not
  \<^verbatim>\<open>service_account\<close> is refused with the invalid-credential message and persists
  nothing. The code misses one such document: for the JSON literal \<^verbatim>\<open>null\<close> the
  validation line itself throws, and the reply carries the could-not-read message
  of the catch-all instead of the invalid-key message. Nothing is persisted there
  either.
\<close>

theorem pickJsonFile_null_document:
  "JSON_parse null_file_env ''null'' = Inr JNull
   \<and> pickJsonFile null_file_env connected =
     (\<lparr>ok = False,
       error = Some (''Could not read file: Cannot read properties of null (reading ''
                     @ [CHR 0x27] @ ''type'' @ [CHR 0x27] @ '')''),
       email = None\<rparr>, connected)
   \<and> error (fst (pickJsonFile null_file_env connected)) \<noteq> Some not_a_key_file"
  by (simp add: pickJsonFile_def pickJsonFile_try_def null_file_env_def example_env_def
        example_parse_def cannot_read_def not_a_key_file_def)

text \<open>
  C7. When no pending OAuth client is stored, the submission of a code goes to the
  token endpoint with no client id and no secret. The endpoint refuses such an
  exchange, and the reply is \<^verbatim>\<open>{ok: false, error}\<close> with a message that mentions the
  token exchange; the store is unchanged, so no tokens are stored.
\<close>

theorem submitOauthCode_without_pending:
  assumes "store st ''pendingOauthClient'' = None"
    and "JSON_parse env ''{}'' = Inr (JObject [] [])"
    and "getToken env (OAuth2 JUndefined JUndefined None) (trim code) = Inl e"
  shows "submitOauthCode env code st =
           (\<lparr>ok = False, error = Some (''Token exchange failed: '' @ e)\<rparr>,
            perform (GetToken (trim code)) st)
     \<and> mentions ''Token exchange'' (''Token exchange failed: '' @ e)
     \<and> store (snd (submitOauthCode env code st)) = store st
     \<and> store (snd (submitOauthCode env code st)) ''oauthTokens'' = store st ''oauthTokens''"
  using assms
  by (simp add: submitOauthCode_def submitOauthCode_try_def store_get_def Let_def perform_def)

text \<open>The endpoint refuses the exchange for want of a client.\<close>

theorem submitOauthCode_without_pending_witness:
  "submitOauthCode example_env '' 4/0AX4 '' configured =
     (\<lparr>ok = False, error = Some ''Token exchange failed: invalid_client''\<rparr>,
      configured\<lparr>effects := [GetToken ''4/0AX4'']\<rparr>)
   \<and> store (snd (submitOauthCode example_env '' 4/0AX4 '' configured)) ''oauthTokens'' = None"
  using submitOauthCode_without_pending[of configured example_env "'' 4/0AX4 ''" "''invalid_client''"]
  by (simp add: configured_def example_env_def example_parse_def trim_def js_whitespace_def
        perform_def)

text \<open>
  C8. For a URL string that does not begin with \<^verbatim>\<open>https://\<close> the handler launches
  nothing, raises nothing and leaves the state as it is; for one that does, it
  launches the browser on that URL.
\<close>

theorem openExternal_https_only:
  "(\<not> prefix ''https://'' url \<longrightarrow> openExternal (JStr url) st = (Inr (), st))
   \<and> (prefix ''https://'' url \<longrightarrow>
        openExternal (JStr url) st = (Inr (), st\<lparr>effects := effects st @ [OpenExternal url]\<rparr>))"
  by (simp add: perform_def)

theorem openExternal_https_only_witness:
  "openExternal (JStr ''http://example.com'') connected = (Inr (), connected)
   \<and> openExternal (JStr ''https://example.com'') connected =
       (Inr (), connected\<lparr>effects := effects connected @ [OpenExternal ''https://example.com'']\<rparr>)"
  using openExternal_https_only[of "''http://example.com''" connected]
    openExternal_https_only[of "''https://example.com''" connected]
  by simp

text \<open>
  C9, as amended. The normalizer applies to every value exactly the first matching
  rule in this order: null or absent maps to null; an unbounded-precision integer
  maps to the nearest standard numeric value (the platform's \<^verbatim>\<open>Number\<close> of it); a date
  maps to its ISO-8601 string (the platform's \<^verbatim>\<open>toISOString\<close> of it); an object
  exposing a defined \<^verbatim>\<open>value\<close>, own or inherited, scalar or not, maps to that inner
  value; any other object maps to its JSON text (the platform's \<^verbatim>\<open>JSON.stringify\<close> of
  it); any remaining plain scalar passes through unchanged.
\<close>

theorem serializeValue_rules: "serializeValue env v = normalize_by defined_inner_value env v"
  by (cases v)
     (auto simp: serializeValue_def normalize_by_def spec_order_def
           split: option.splits sum.splits)

theorem serializeValue_rules_witness:
  "serializeValue example_env (JBigInt 42) = Inr (JNum (Finite 42))
   \<and> serializeValue example_env (JDate (Some 0)) = Inr (JStr ''1970-01-01T00:00:00.000Z'')
   \<and> serializeValue example_env (JObject [(''value'', JStr ''2024-05-01'')] []) =
       Inr (JStr ''2024-05-01'')
   \<and> serializeValue example_env date_range = Inr (JStr ''[2020-01-01, 2020-12-31)'')
   \<and> serializeValue example_env (JArray []) = Inr (JStr ''[]'')
   \<and> serializeValue example_env (JStr ''inbound'') = Inr (JStr ''inbound'')"
  using serializeValue_rules[of example_env "JBigInt 42"]
    serializeValue_rules[of example_env "JDate (Some 0)"]
    serializeValue_rules[of example_env "JObject [(''value'', JStr ''2024-05-01'')] []"]
    serializeValue_rules[of example_env date_range]
    serializeValue_rules[of example_env "JArray []"]
    serializeValue_rules[of example_env "JStr ''inbound''"]
  by (simp add: normalize_by_def spec_order_def example_env_def example_stringify_def
        date_range_def)

text \<open>
  C9 as stated fails on an object whose \<^verbatim>\<open>value\<close> is a list: the list is no scalar, so
  the rules as stated give the JSON text of the object, and the code gives the list.
\<close>

theorem serializeValue_unwraps_list:
  "serializeValue example_env wrapped_list = Inr (JArray [])
   \<and> spec_normalize example_env wrapped_list = Inr (JStr wrapped_list_text)"
  by (simp add: serializeValue_def spec_normalize_def normalize_by_def spec_order_def
        wrapped_list_def example_env_def example_stringify_def tokens_document_def)

text \<open>
  C10. A save leaves the stored value of every field that it supplies absent or
  empty as it was, resets both clients and the schema cache all the same, and
  answers \<^verbatim>\<open>{ok: true}\<close>.
\<close>

theorem config_save_empty_fields:
  "(\<not> present (projectId cfg) \<longrightarrow>
      store (snd (config_save cfg st)) ''projectId'' = store st ''projectId'')
   \<and> (\<not> present (datasetId cfg) \<longrightarrow>
      store (snd (config_save cfg st)) ''datasetId'' = store st ''datasetId'')
   \<and> (\<not> present (geminiKey cfg) \<longrightarrow>
      store (snd (config_save cfg st)) ''geminiKey'' = store st ''geminiKey'')
   \<and> (\<not> present (authMethod cfg) \<longrightarrow>
      store (snd (config_save cfg st)) ''authMethod'' = store st ''authMethod'')
   \<and> bigqueryClient (snd (config_save cfg st)) = None
   \<and> geminiClient (snd (config_save cfg st)) = None
   \<and> tableSchemaCache (snd (config_save cfg st)) = Map.empty
   \<and> fst (config_save cfg st) = \<lparr>ok = True, error = None\<rparr>"
  by (cases "projectId cfg"; cases "datasetId cfg"; cases "geminiKey cfg"; cases "authMethod cfg")
     (simp_all add: config_save_def store_set_def Let_def)

theorem config_save_empty_fields_witness:
  "store (snd (config_save empty_form connected)) ''projectId'' = Some ''my-project''
   \<and> store (snd (config_save empty_form connected)) ''datasetId'' = Some ''pbx''
   \<and> store (snd (config_save empty_form connected)) ''geminiKey'' = Some ''AIza''
   \<and> store (snd (config_save empty_form connected)) ''authMethod'' = Some ''apiKey''
   \<and> bigqueryClient (snd (config_save empty_form connected)) = None
   \<and> tableSchemaCache (snd (config_save empty_form connected)) = Map.empty"
  using config_save_empty_fields[of empty_form connected]
  by (simp add: empty_form_def connected_def configured_def)

end
